theory Spec2Isabelle
  imports Main
begin

section \<open>Data model of \<open>src/App.js\<close>\<close>

text \<open>
  A date-valued field of a message as it arrives in the JSON body. The source treats such a
  field in two ways: by truthiness (\<open>msg.deliveredAt ? ... : ...\<close>) and through
  \<open>new Date(...)\<close>.
  \<^item> \<open>Missing\<close>: the key is absent (\<open>undefined\<close>) or the empty string: falsy, and
    \<open>new Date\<close> of it is an Invalid Date;
  \<^item> \<open>JNull\<close>: JSON \<open>null\<close>: falsy, and \<open>new Date(null)\<close> is the epoch;
  \<^item> \<open>Unparsable\<close>: a non-empty string that is no date: truthy, Invalid Date;
  \<^item> \<open>Timestamp t\<close>: a date string denoting \<open>t\<close> milliseconds since the epoch.
\<close>

datatype date_field = Missing | JNull | Unparsable | Timestamp int

fun truthy :: "date_field \<Rightarrow> bool" where
  "truthy Missing = False"
| "truthy JNull = False"
| "truthy Unparsable = True"
| "truthy (Timestamp t) = True"

text \<open>\<open>new Date(v)\<close>: the time value in milliseconds, \<open>None\<close> for an Invalid Date (NaN).\<close>

fun new_Date :: "date_field \<Rightarrow> int option" where
  "new_Date Missing = None"
| "new_Date JNull = Some 0"
| "new_Date Unparsable = None"
| "new_Date (Timestamp t) = Some t"

text \<open>\<open>a > b\<close> on two Date objects: a comparison of the time values, false when one is NaN.\<close>

fun date_gt :: "int option \<Rightarrow> int option \<Rightarrow> bool" where
  "date_gt (Some a) (Some b) = (b < a)"
| "date_gt _ _ = False"

text \<open>
  A message of the list. \<open>msg_id\<close> is the source's \<open>_id\<close>; \<open>content\<close> and \<open>body\<close>
  are optional strings (\<open>message.content || message.body\<close>).
\<close>

record message =
  msg_id :: string
  title :: string
  content :: "string option"
  body :: "string option"
  status :: string
  scheduledDateTime :: date_field
  deliveredAt :: date_field
  updatedAt :: date_field
  category :: string

text \<open>The payload of a Socket.io \<open>statusUpdate\<close> event.\<close>

record update =
  messageId :: string
  upd_status :: string
  upd_deliveredAt :: date_field

text \<open>
  The component state that the synchronisation logic reads and writes: the \<open>messages\<close>
  state (the Message Store), the \<open>shownNotifications\<close> ref (the Seen-Notification Ledger),
  and the two progress flags.
\<close>

record app_state =
  messages :: "message list"
  shownNotifications :: "string set"
  loading :: bool
  refreshing :: bool

definition initial_state :: app_state where
  "initial_state =
     \<lparr>messages = [], shownNotifications = {}, loading = False, refreshing = False\<rparr>"

text \<open>
  What the code does to the outside world, in the order it does it. \<open>HttpGet\<close> is the
  call \<open>fetch(API_ENDPOINT, ...)\<close>; \<open>ScheduleNotification title body messageId\<close> is
  \<open>Notifications.scheduleNotificationAsync\<close>; \<open>AlertAlert title text\<close> is
  \<open>Alert.alert\<close>; the console calls carry the fixed part of their text.
\<close>

datatype effect =
    ConsoleLog string
  | ConsoleError string
  | AlertAlert string string
  | ScheduleNotification string "string option" string
  | HttpGet

text \<open>
  How a request for the message list ends. \<open>Failed\<close> is every path into the \<open>catch\<close>
  block: \<open>fetch\<close> rejects (network error, or the abort after 10 seconds), the response is
  not \<open>ok\<close>, or the body is no JSON (or is \<open>null\<close>, whose \<open>success\<close> cannot be read).
  \<open>Json\<close> is a decoded body: an object with its \<open>success\<close> flag and its \<open>data\<close>
  (\<open>None\<close> when absent or \<open>null\<close>; an array, also an empty one, is truthy), or a bare
  array, on which \<open>result.success\<close> and \<open>result.data\<close> are \<open>undefined\<close>.
\<close>

datatype failure = NetworkError | Timeout | HttpNotOk nat | MalformedBody

datatype json_result =
    ResultObject bool "message list option"
  | ResultArray "message list"

datatype fetch_outcome = Failed failure | Json json_result

fun success_of :: "json_result \<Rightarrow> bool" where
  "success_of (ResultObject ok d) = ok"
| "success_of (ResultArray xs) = False"

fun data_of :: "json_result \<Rightarrow> message list option" where
  "data_of (ResultObject ok d) = d"
| "data_of (ResultArray xs) = None"

text \<open>\<open>Array.isArray(result)\<close>, with the array when it is one.\<close>

fun array_of :: "json_result \<Rightarrow> message list option" where
  "array_of (ResultObject ok d) = None"
| "array_of (ResultArray xs) = Some xs"

text \<open>Who called \<open>fetchMessages\<close>, and with which \<open>isPoll\<close> argument.\<close>

datatype trigger = OnMount | PollingTimer | StatusUpdateFetch | OnRefresh | TestSend

fun isPoll_of :: "trigger \<Rightarrow> bool" where
  "isPoll_of OnMount = False"
| "isPoll_of PollingTimer = True"
| "isPoll_of StatusUpdateFetch = True"
| "isPoll_of OnRefresh = False"
| "isPoll_of TestSend = False"

text \<open>
  The mount effect installs the interval timer only off the web
  (\<open>if (!isWeb) { pollingTimer.current = setInterval(...) }\<close>); every other caller exists
  on both platforms.
\<close>

fun trigger_armed :: "bool \<Rightarrow> trigger \<Rightarrow> bool" where
  "trigger_armed isWeb PollingTimer = (\<not> isWeb)"
| "trigger_armed isWeb _ = True"

section \<open>Operations\<close>

subsection \<open>\<open>sendNotificationFromMessage\<close>\<close>

definition content_or_body :: "message \<Rightarrow> string option" where
  "content_or_body m =
     (case content m of
        None \<Rightarrow> body m
      | Some c \<Rightarrow> if c = [] then body m else Some c)"

definition template_string :: "string option \<Rightarrow> string" where
  "template_string v = (case v of None \<Rightarrow> ''undefined'' | Some x \<Rightarrow> x)"

definition sendNotificationFromMessage :: "bool \<Rightarrow> message \<Rightarrow> effect list" where
  "sendNotificationFromMessage isWeb m =
     (if isWeb
      then [AlertAlert ''Test Notification''
              (title m @ [CHR 0x0A, CHR 0x0A] @ template_string (content_or_body m))]
      else [ScheduleNotification (title m) (content_or_body m) (msg_id m)])"

subsection \<open>\<open>fetchMessages\<close>\<close>

text \<open>
  \<open>fetchMessages\<close> is an \<open>async\<close> function: the part before \<open>await fetch(...)\<close> runs when
  it is called, the part after the body has been decoded runs later, in one turn of the
  event loop. The two parts are \<open>fetchMessages_begin\<close> and \<open>fetchMessages_complete\<close>;
  \<open>now\<close> is \<open>Date.now()\<close> in that later turn.
\<close>

definition fetchMessages_begin :: "bool \<Rightarrow> app_state \<Rightarrow> app_state \<times> effect list" where
  "fetchMessages_begin isPoll s =
     (if \<not> isPoll
      then (s\<lparr>loading := True\<rparr>, [ConsoleLog ''Fetching messages from:'', HttpGet])
      else (s, [HttpGet]))"

text \<open>The first \<open>forEach\<close>: every message with status \<open>'Sent'\<close> is added to the set.\<close>

fun mark_sent :: "message list \<Rightarrow> string set \<Rightarrow> string set" where
  "mark_sent [] shown = shown"
| "mark_sent (m # ms) shown =
     mark_sent ms (if status m = ''Sent'' then insert (msg_id m) shown else shown)"

definition sentAt :: "message \<Rightarrow> int option" where
  "sentAt m =
     (if truthy (deliveredAt m) then new_Date (deliveredAt m) else new_Date (updatedAt m))"

definition twoMinutesAgo :: "int \<Rightarrow> int option" where
  "twoMinutesAgo now = Some (now - 2 * 60 * 1000)"

text \<open>
  The second \<open>forEach\<close>: the set is read and written message by message, so a message
  sees the identities added for the messages before it.
\<close>

fun alert_new :: "bool \<Rightarrow> int \<Rightarrow> message list \<Rightarrow> string set \<Rightarrow> string set \<times> effect list" where
  "alert_new isWeb now [] shown = (shown, [])"
| "alert_new isWeb now (m # ms) shown =
     (if status m = ''Sent'' \<and> msg_id m \<notin> shown \<and> date_gt (sentAt m) (twoMinutesAgo now)
      then (case alert_new isWeb now ms (insert (msg_id m) shown) of
              (shown', es) \<Rightarrow>
                (shown',
                 ConsoleLog ''Polling found new Sent message, triggering local alert:''
                   # sendNotificationFromMessage isWeb m @ es))
      else alert_new isWeb now ms shown)"

text \<open>The body of \<open>if (result.success && result.data)\<close>.\<close>

definition handle_data ::
  "bool \<Rightarrow> bool \<Rightarrow> int \<Rightarrow> message list \<Rightarrow> app_state \<Rightarrow> app_state \<times> effect list" where
  "handle_data isWeb isPoll now fetchedMessages s =
     (let s1 = s\<lparr>messages := fetchedMessages\<rparr>;
          (s2, es2) =
            (if \<not> isPoll
             then (s1\<lparr>shownNotifications := mark_sent fetchedMessages (shownNotifications s1)\<rparr>,
                   [ConsoleLog ''Initialized: messages marked as seen.''])
             else (s1, []))
      in if \<not> isWeb \<and> isPoll
         then (case alert_new isWeb now fetchedMessages (shownNotifications s2) of
                 (shown', es3) \<Rightarrow> (s2\<lparr>shownNotifications := shown'\<rparr>, es2 @ es3))
         else (s2, es2))"

text \<open>The \<open>finally\<close> block.\<close>

definition finally_block :: "bool \<Rightarrow> app_state \<Rightarrow> app_state" where
  "finally_block isPoll s =
     (if \<not> isPoll then s\<lparr>loading := False, refreshing := False\<rparr> else s)"

definition fetchMessages_complete ::
  "bool \<Rightarrow> bool \<Rightarrow> int \<Rightarrow> fetch_outcome \<Rightarrow> app_state \<Rightarrow> app_state \<times> effect list" where
  "fetchMessages_complete isWeb isPoll now outcome s =
     (case outcome of
        Failed f \<Rightarrow>
          (finally_block isPoll s,
           if \<not> isPoll
           then [ConsoleError ''Error fetching messages:'',
                 AlertAlert ''Connection Error'' ''Could not connect to Bull Queue server.'']
           else [])
      | Json result \<Rightarrow>
          (let es1 = (if isPoll then [] else [ConsoleLog ''Messages response:''])
           in case (success_of result, data_of result) of
                (True, Some fetchedMessages) \<Rightarrow>
                  (case handle_data isWeb isPoll now fetchedMessages s of
                     (s', es) \<Rightarrow> (finally_block isPoll s', es1 @ es))
              | _ \<Rightarrow>
                  (case (success_of result, array_of result) of
                     (True, Some xs) \<Rightarrow> (finally_block isPoll (s\<lparr>messages := xs\<rparr>), es1)
                   | _ \<Rightarrow> (finally_block isPoll s, es1))))"

subsection \<open>The \<open>statusUpdate\<close> handler, \<open>onRefresh\<close> and the per-message Test button\<close>

definition apply_update :: "update \<Rightarrow> message \<Rightarrow> message" where
  "apply_update u msg =
     (if msg_id msg = messageId u
      then msg\<lparr>status := upd_status u, deliveredAt := upd_deliveredAt u\<rparr>
      else msg)"

definition on_statusUpdate :: "update \<Rightarrow> app_state \<Rightarrow> app_state \<times> effect list" where
  "on_statusUpdate u s =
     (let s1 = s\<lparr>messages := map (apply_update u) (messages s)\<rparr>
      in if upd_status u = ''Sent'' \<and> messageId u \<notin> shownNotifications s1
         then (case fetchMessages_begin True s1 of
                 (s2, es) \<Rightarrow>
                   (s2,
                    ConsoleLog ''Real-time update received:''
                      # ConsoleLog ''Status changed to Sent, triggering immediate content fetch...''
                      # es))
         else (s1, [ConsoleLog ''Real-time update received:'']))"

definition onRefresh :: "app_state \<Rightarrow> app_state \<times> effect list" where
  "onRefresh s = fetchMessages_begin False (s\<lparr>refreshing := True\<rparr>)"

subsection \<open>Turns of the event loop\<close>

text \<open>
  Every callback runs to its next \<open>await\<close> without interruption, so the behaviour of the
  component is a sequence of such turns. \<open>FetchCompleted t now r\<close> is the turn in which a
  request started by \<open>t\<close> ends with \<open>r\<close>; two requests in flight at once are two such
  turns, in the order their responses arrive.
\<close>

datatype event =
    FetchCompleted trigger int fetch_outcome
  | StatusUpdate update
  | RefreshPressed
  | TestPressed message

fun step :: "bool \<Rightarrow> event \<Rightarrow> app_state \<Rightarrow> app_state \<times> effect list" where
  "step isWeb (FetchCompleted t now r) s = fetchMessages_complete isWeb (isPoll_of t) now r s"
| "step isWeb (StatusUpdate u) s = on_statusUpdate u s"
| "step isWeb RefreshPressed s = onRefresh s"
| "step isWeb (TestPressed m) s = (s, sendNotificationFromMessage isWeb m)"

fun run :: "bool \<Rightarrow> event list \<Rightarrow> app_state \<Rightarrow> app_state \<times> effect list" where
  "run isWeb [] s = (s, [])"
| "run isWeb (e # es) s =
     (case step isWeb e s of
        (s1, out1) \<Rightarrow> (case run isWeb es s1 of (s2, out2) \<Rightarrow> (s2, out1 @ out2)))"

text \<open>The effects of the fetch turns alone: what \<open>fetchMessages\<close> itself did during a run.\<close>

fun fetch_effects :: "bool \<Rightarrow> event list \<Rightarrow> app_state \<Rightarrow> effect list" where
  "fetch_effects isWeb [] s = []"
| "fetch_effects isWeb (e # es) s =
     (case e of FetchCompleted t now r \<Rightarrow> snd (step isWeb e s) | _ \<Rightarrow> [])
       @ fetch_effects isWeb es (fst (step isWeb e s))"

subsection \<open>Reading a trace\<close>

text \<open>
  An effect presents a message when it is one of the two things
  \<open>sendNotificationFromMessage\<close> does.
\<close>

fun is_present :: "effect \<Rightarrow> bool" where
  "is_present (ScheduleNotification t b i) = True"
| "is_present (AlertAlert t x) = (t = ''Test Notification'')"
| "is_present _ = False"

fun alert_for :: "string \<Rightarrow> effect \<Rightarrow> bool" where
  "alert_for i (ScheduleNotification t b j) = (j = i)"
| "alert_for i _ = False"

fun is_log :: "effect \<Rightarrow> bool" where
  "is_log (ConsoleLog x) = True"
| "is_log (ConsoleError x) = True"
| "is_log _ = False"

definition alerts_for :: "string \<Rightarrow> effect list \<Rightarrow> nat" where
  "alerts_for i es = length (filter (alert_for i) es)"

definition sent_ids :: "message list \<Rightarrow> string set" where
  "sent_ids ms = msg_id ` set (filter (\<lambda>m. status m = ''Sent'') ms)"

text \<open>A successful response: \<open>{ success: true, data: [...] }\<close>.\<close>

definition ok_result :: "message list \<Rightarrow> fetch_outcome" where
  "ok_result ms = Json (ResultObject True (Some ms))"

subsection \<open>Sample data\<close>

definition sample_message :: "string \<Rightarrow> string \<Rightarrow> date_field \<Rightarrow> date_field \<Rightarrow> message" where
  "sample_message i st delivered updated =
     \<lparr>msg_id = i, title = ''Reminder'', content = Some ''Take your medication'', body = None,
      status = st, scheduledDateTime = Timestamp 0, deliveredAt = delivered,
      updatedAt = updated, category = ''Health''\<rparr>"

definition sample_state :: "message list \<Rightarrow> string set \<Rightarrow> app_state" where
  "sample_state ms shown =
     \<lparr>messages = ms, shownNotifications = shown, loading = False, refreshing = False\<rparr>"

section \<open>Basic facts\<close>

lemma mark_sent_eq: "mark_sent ms shown = shown \<union> sent_ids ms"
  by (induction ms arbitrary: shown) (auto simp: sent_ids_def)

lemma messages_finally [simp]: "messages (finally_block p s) = messages s"
  by (simp add: finally_block_def)

lemma shown_finally [simp]: "shownNotifications (finally_block p s) = shownNotifications s"
  by (simp add: finally_block_def)

lemma messages_handle_data [simp]: "messages (fst (handle_data w p now ms s)) = ms"
  by (simp add: handle_data_def Let_def split: prod.splits)

lemma messages_complete_ok [simp]:
  "messages (fst (fetchMessages_complete w p now (ok_result ms) s)) = ms"
  by (simp add: fetchMessages_complete_def ok_result_def split: prod.splits)
     (metis fst_conv messages_handle_data)

lemma run_append:
  "run w (xs @ ys) s =
     (case run w xs s of (s1, o1) \<Rightarrow> (case run w ys s1 of (s2, o2) \<Rightarrow> (s2, o1 @ o2)))"
  by (induction xs arbitrary: s) (auto split: prod.splits)

lemma run_snoc_fetch_ok:
  "messages (fst (run w (evs @ [FetchCompleted t now (ok_result ms)]) s)) = ms"
  by (simp add: run_append split: prod.splits) (metis fst_conv messages_complete_ok)

lemma map_apply_update_id:
  "messageId u \<notin> msg_id ` set ms \<Longrightarrow> map (apply_update u) ms = ms"
  by (induction ms) (auto simp: apply_update_def)

lemma fst_on_statusUpdate:
  "fst (on_statusUpdate u s) = s\<lparr>messages := map (apply_update u) (messages s)\<rparr>"
  by (simp add: on_statusUpdate_def fetchMessages_begin_def Let_def)

subsection \<open>The alert pass and the Ledger\<close>

lemma date_gt_window:
  "date_gt (sentAt m) (twoMinutesAgo now) \<longleftrightarrow> (\<exists>ts. sentAt m = Some ts \<and> now - ts < 120000)"
  by (cases "sentAt m") (auto simp: twoMinutesAgo_def)

lemma alerts_for_simps [simp]:
  "alerts_for i [] = 0"
  "alerts_for i (e # es) = (if alert_for i e then 1 else 0) + alerts_for i es"
  "alerts_for i (xs @ ys) = alerts_for i xs + alerts_for i ys"
  by (simp_all add: alerts_for_def)

lemma alerts_for_send [simp]:
  "alerts_for i (sendNotificationFromMessage False m) = (if msg_id m = i then 1 else 0)"
  by (simp add: sendNotificationFromMessage_def)

lemma alert_new_shown:
  "fst (alert_new w now ms shown) =
     shown \<union> {i. \<exists>m\<in>set ms. msg_id m = i \<and> status m = ''Sent''
                     \<and> date_gt (sentAt m) (twoMinutesAgo now)}"
proof (induction ms arbitrary: shown)
  case Nil
  then show ?case by simp
next
  case (Cons m ms)
  show ?case
  proof (cases "status m = ''Sent'' \<and> msg_id m \<notin> shown \<and> date_gt (sentAt m) (twoMinutesAgo now)")
    case True
    then have "fst (alert_new w now (m # ms) shown) = fst (alert_new w now ms (insert (msg_id m) shown))"
      by (simp split: prod.splits)
    then show ?thesis
      using True by (auto simp: Cons.IH [of "insert (msg_id m) shown"])
  next
    case False
    then have "fst (alert_new w now (m # ms) shown) = fst (alert_new w now ms shown)"
      by auto
    then show ?thesis
      using False by (auto simp: Cons.IH [of shown])
  qed
qed

lemma alert_new_count:
  "alerts_for i (snd (alert_new False now ms shown)) =
     (if i \<notin> shown \<and> (\<exists>m\<in>set ms. msg_id m = i \<and> status m = ''Sent''
                          \<and> date_gt (sentAt m) (twoMinutesAgo now))
      then 1 else 0)"
proof (induction ms arbitrary: shown)
  case Nil
  then show ?case by simp
next
  case (Cons m ms)
  show ?case
  proof (cases "status m = ''Sent'' \<and> msg_id m \<notin> shown \<and> date_gt (sentAt m) (twoMinutesAgo now)")
    case True
    then show ?thesis
      using Cons.IH [of "insert (msg_id m) shown"]
      by (auto split: prod.splits)
  next
    case False
    then show ?thesis
      using Cons.IH [of shown] by auto
  qed
qed

lemma alert_new_presents:
  "e \<in> set (snd (alert_new False now ms shown)) \<Longrightarrow> is_present e \<Longrightarrow>
     \<exists>m\<in>set ms. e = ScheduleNotification (title m) (content_or_body m) (msg_id m)
        \<and> status m = ''Sent'' \<and> msg_id m \<notin> shown \<and> date_gt (sentAt m) (twoMinutesAgo now)"
proof (induction ms arbitrary: shown)
  case Nil
  then show ?case by simp
next
  case (Cons m ms)
  show ?case
  proof (cases "status m = ''Sent'' \<and> msg_id m \<notin> shown \<and> date_gt (sentAt m) (twoMinutesAgo now)")
    case True
    with Cons.prems have "e = ScheduleNotification (title m) (content_or_body m) (msg_id m)
        \<or> e \<in> set (snd (alert_new False now ms (insert (msg_id m) shown)))"
      by (auto simp: sendNotificationFromMessage_def split: prod.splits)
    then show ?thesis
    proof
      assume "e = ScheduleNotification (title m) (content_or_body m) (msg_id m)"
      with True show ?thesis by simp
    next
      assume "e \<in> set (snd (alert_new False now ms (insert (msg_id m) shown)))"
      from Cons.IH [OF this Cons.prems(2)] show ?thesis by auto
    qed
  next
    case False
    with Cons.prems have "e \<in> set (snd (alert_new False now ms shown))" by auto
    from Cons.IH [OF this Cons.prems(2)] show ?thesis by auto
  qed
qed

lemma complete_ok_shown:
  "shownNotifications (fst (fetchMessages_complete w p now (ok_result ms) s)) =
     (if \<not> p then shownNotifications s \<union> sent_ids ms
      else if \<not> w then shownNotifications s \<union>
             {i. \<exists>m\<in>set ms. msg_id m = i \<and> status m = ''Sent''
                     \<and> date_gt (sentAt m) (twoMinutesAgo now)}
      else shownNotifications s)"
  using alert_new_shown [of w now ms "shownNotifications s"]
  by (auto simp: fetchMessages_complete_def ok_result_def handle_data_def Let_def mark_sent_eq
           split: prod.splits)

lemma complete_ok_effects:
  "snd (fetchMessages_complete w p now (ok_result ms) s) =
     (if \<not> p then [ConsoleLog ''Messages response:'', ConsoleLog ''Initialized: messages marked as seen.'']
      else if \<not> w then snd (alert_new False now ms (shownNotifications s))
      else [])"
  by (auto simp: fetchMessages_complete_def ok_result_def handle_data_def Let_def
           split: prod.splits)

lemma complete_not_ok:
  assumes "\<forall>ms. r \<noteq> ok_result ms"
  shows "fetchMessages_complete w p now r s =
           (finally_block p s,
            case r of
              Failed f \<Rightarrow>
                if \<not> p
                then [ConsoleError ''Error fetching messages:'',
                      AlertAlert ''Connection Error'' ''Could not connect to Bull Queue server.'']
                else []
            | Json result \<Rightarrow> if p then [] else [ConsoleLog ''Messages response:''])"
proof (cases r)
  case (Failed f)
  then show ?thesis by (simp add: fetchMessages_complete_def)
next
  case (Json result)
  show ?thesis
  proof (cases result)
    case (ResultObject ok d)
    with Json assms have "\<not> ok \<or> d = None"
      by (cases ok; cases d) (auto simp: ok_result_def)
    with Json ResultObject show ?thesis
      by (auto simp: fetchMessages_complete_def Let_def split: bool.splits option.splits)
  next
    case (ResultArray xs)
    with Json show ?thesis by (simp add: fetchMessages_complete_def)
  qed
qed

lemma complete_not_ok_state:
  "(\<forall>ms. r \<noteq> ok_result ms) \<Longrightarrow>
   fst (fetchMessages_complete w p now r s) = finally_block p s"
  by (simp add: complete_not_ok)

lemma complete_not_ok_effects:
  "(\<forall>ms. r \<noteq> ok_result ms) \<Longrightarrow>
   filter is_present (snd (fetchMessages_complete w p now r s)) = []"
  by (simp add: complete_not_ok split: fetch_outcome.splits)

lemma complete_not_ok_alerts:
  "(\<forall>ms. r \<noteq> ok_result ms) \<Longrightarrow>
   alerts_for i (snd (fetchMessages_complete w p now r s)) = 0"
  by (simp add: complete_not_ok split: fetch_outcome.splits)

lemma complete_ok_alerts:
  "alerts_for i (snd (fetchMessages_complete w p now (ok_result ms) s)) =
     (if \<not> w \<and> p \<and> i \<notin> shownNotifications s \<and>
         (\<exists>m\<in>set ms. msg_id m = i \<and> status m = ''Sent''
                      \<and> date_gt (sentAt m) (twoMinutesAgo now))
      then 1 else 0)"
  by (auto simp: complete_ok_effects alert_new_count)

lemma complete_shown_mono:
  "shownNotifications s \<subseteq> shownNotifications (fst (fetchMessages_complete w p now r s))"
proof (cases "\<exists>ms. r = ok_result ms")
  case True
  then show ?thesis by (auto simp: complete_ok_shown)
next
  case False
  then show ?thesis by (simp add: complete_not_ok_state)
qed

lemma step_shown_mono: "shownNotifications s \<subseteq> shownNotifications (fst (step w e s))"
  by (cases e)
     (simp_all add: complete_shown_mono fst_on_statusUpdate onRefresh_def fetchMessages_begin_def)

lemma complete_seen_no_alert:
  "i \<in> shownNotifications s \<Longrightarrow> alerts_for i (snd (fetchMessages_complete w p now r s)) = 0"
  by (cases "\<exists>ms. r = ok_result ms") (auto simp: complete_ok_alerts complete_not_ok_alerts)

lemma complete_alert_le1:
  "alerts_for i (snd (fetchMessages_complete w p now r s)) \<le> 1"
  by (cases "\<exists>ms. r = ok_result ms") (auto simp: complete_ok_alerts complete_not_ok_alerts)

lemma complete_alert_marks:
  "alerts_for i (snd (fetchMessages_complete w p now r s)) \<noteq> 0 \<Longrightarrow>
     i \<in> shownNotifications (fst (fetchMessages_complete w p now r s))"
  by (cases "\<exists>ms. r = ok_result ms")
     (auto simp: complete_ok_alerts complete_ok_shown complete_not_ok_alerts split: if_splits)

lemma fetch_effects_seen:
  "i \<in> shownNotifications s \<Longrightarrow> alerts_for i (fetch_effects w evs s) = 0"
proof (induction evs arbitrary: s)
  case Nil
  then show ?case by simp
next
  case (Cons e evs)
  from Cons.prems step_shown_mono [of s w e]
  have "i \<in> shownNotifications (fst (step w e s))" by blast
  then have "alerts_for i (fetch_effects w evs (fst (step w e s))) = 0"
    by (rule Cons.IH)
  then show ?case
    using Cons.prems by (cases e) (simp_all add: complete_seen_no_alert)
qed

lemma fetch_effects_le1: "alerts_for i (fetch_effects w evs s) \<le> 1"
proof (induction evs arbitrary: s)
  case Nil
  then show ?case by simp
next
  case (Cons e evs)
  show ?case
  proof (cases e)
    case (FetchCompleted t now r)
    let ?c = "alerts_for i (snd (fetchMessages_complete w (isPoll_of t) now r s))"
    show ?thesis
    proof (cases "?c = 0")
      case True
      then show ?thesis using Cons.IH [of "fst (step w e s)"] FetchCompleted by simp
    next
      case False
      then have "i \<in> shownNotifications (fst (step w e s))"
        using complete_alert_marks [of i w "isPoll_of t" now r s] FetchCompleted by simp
      then have "alerts_for i (fetch_effects w evs (fst (step w e s))) = 0"
        by (rule fetch_effects_seen)
      then show ?thesis
        using complete_alert_le1 [of i w "isPoll_of t" now r s] FetchCompleted by simp
    qed
  qed (use Cons.IH in simp_all)
qed

lemma alerts_for_pos:
  "alerts_for i es \<noteq> 0 \<Longrightarrow> \<exists>e\<in>set es. alert_for i e"
  by (induction es) (auto split: if_splits)

lemma alert_for_present: "alert_for i e \<Longrightarrow> is_present e"
  by (cases e) simp_all

lemma complete_ok_presents:
  assumes "e \<in> set (snd (fetchMessages_complete w p now (ok_result ms) s))" and "is_present e"
  shows "\<not> w \<and> p \<and> (\<exists>m\<in>set ms. e = ScheduleNotification (title m) (content_or_body m) (msg_id m)
        \<and> status m = ''Sent'' \<and> msg_id m \<notin> shownNotifications s
        \<and> date_gt (sentAt m) (twoMinutesAgo now))"
proof (cases "\<not> w \<and> p")
  case True
  with assms have "e \<in> set (snd (alert_new False now ms (shownNotifications s)))"
    by (simp add: complete_ok_effects)
  from alert_new_presents [OF this assms(2)] True show ?thesis by simp
next
  case False
  with assms show ?thesis
    by (auto simp: complete_ok_effects split: if_splits)
qed

lemma complete_ok_member_iff:
  assumes m: "m \<in> set ms" and uniq: "\<forall>m'\<in>set ms. msg_id m' = msg_id m \<longrightarrow> m' = m"
  shows "ScheduleNotification (title m) (content_or_body m) (msg_id m)
           \<in> set (snd (fetchMessages_complete w p now (ok_result ms) s))
         \<longleftrightarrow> \<not> w \<and> p \<and> status m = ''Sent'' \<and> msg_id m \<notin> shownNotifications s
              \<and> date_gt (sentAt m) (twoMinutesAgo now)"
    (is "?sn \<in> set ?es \<longleftrightarrow> ?cond")
proof
  assume "?sn \<in> set ?es"
  from complete_ok_presents [OF this] obtain m' where
    "\<not> w" "p" "m' \<in> set ms" "?sn = ScheduleNotification (title m') (content_or_body m') (msg_id m')"
    "status m' = ''Sent''" "msg_id m' \<notin> shownNotifications s"
    "date_gt (sentAt m') (twoMinutesAgo now)"
    by auto
  moreover from this uniq have "m' = m" by simp
  ultimately show ?cond by simp
next
  assume c: ?cond
  with m have "alerts_for (msg_id m) ?es = 1"
    by (auto simp: complete_ok_alerts)
  then obtain e where e: "e \<in> set ?es" "alert_for (msg_id m) e"
    using alerts_for_pos [of "msg_id m" ?es] by auto
  from complete_ok_presents [OF e(1) alert_for_present [OF e(2)]] obtain m' where
    m': "m' \<in> set ms" "e = ScheduleNotification (title m') (content_or_body m') (msg_id m')"
    by auto
  with e(2) have "msg_id m' = msg_id m" by simp
  with uniq m'(1) have "m' = m" by simp
  with m'(2) e(1) show "?sn \<in> set ?es" by simp
qed

lemma fetch_effects_Cons_fetch:
  "fetch_effects w (FetchCompleted t now r # evs) s =
     snd (step w (FetchCompleted t now r) s)
       @ fetch_effects w evs (fst (step w (FetchCompleted t now r) s))"
  by simp

lemma fst_run_Cons: "fst (run w (e # es) s) = fst (run w es (fst (step w e s)))"
  by (cases "step w e s"; cases "run w es (fst (step w e s))") simp

lemma run_shown_mono:
  "shownNotifications s \<subseteq> shownNotifications (fst (run w evs s))"
proof (induction evs arbitrary: s)
  case Nil
  then show ?case by simp
next
  case (Cons e evs)
  have "shownNotifications s \<subseteq> shownNotifications (fst (step w e s))"
    by (rule step_shown_mono)
  also have "\<dots> \<subseteq> shownNotifications (fst (run w evs (fst (step w e s))))"
    by (rule Cons.IH)
  finally show ?case by (simp only: fst_run_Cons)
qed

lemma card_sent_ids:
  "distinct (map msg_id ms) \<Longrightarrow>
     card (sent_ids ms) = length (filter (\<lambda>m. status m = ''Sent'') ms)"
proof -
  assume "distinct (map msg_id ms)"
  then have "distinct (map msg_id (filter (\<lambda>m. status m = ''Sent'') ms))"
    by (rule distinct_map_filter)
  then have "card (set (map msg_id (filter (\<lambda>m. status m = ''Sent'') ms)))
               = length (map msg_id (filter (\<lambda>m. status m = ''Sent'') ms))"
    by (rule distinct_card)
  then show ?thesis by (simp add: sent_ids_def)
qed

lemma complete_no_present:
  "w \<or> \<not> p \<Longrightarrow> filter is_present (snd (fetchMessages_complete w p now r s)) = []"
  by (cases "\<exists>ms. r = ok_result ms")
     (auto simp: complete_ok_effects complete_not_ok_effects)

lemma run_replicate_test:
  "run w (replicate n (TestPressed m)) s
     = (s, concat (replicate n (sendNotificationFromMessage w m)))"
  by (induction n) simp_all

lemma fetch_effects_replicate_test:
  "fetch_effects w (replicate n (TestPressed m) @ evs) s = fetch_effects w evs s"
  by (induction n) simp_all

lemma present_send: "filter is_present (sendNotificationFromMessage w m) = sendNotificationFromMessage w m"
  by (simp add: sendNotificationFromMessage_def)

lemma length_send: "length (sendNotificationFromMessage w m) = 1"
  by (simp add: sendNotificationFromMessage_def)

lemma complete_failed:
  "fetchMessages_complete w p now (Failed f) s =
     (finally_block p s,
      if \<not> p
      then [ConsoleError ''Error fetching messages:'',
            AlertAlert ''Connection Error'' ''Could not connect to Bull Queue server.'']
      else [])"
  by (simp add: fetchMessages_complete_def)

section \<open>The Message Store\<close>

text \<open>
  C6. Full-fetch authority: after any non-empty sequence of successful fetches, whoever
  started them and whenever they ended, the Store holds exactly the list of the last one;
  nothing of the earlier ones is kept.
\<close>

theorem full_fetch_authority:
  assumes "rs \<noteq> []"
  shows "messages (fst (run isWeb
           (map (\<lambda>(t, now, ms). FetchCompleted t now (ok_result ms)) rs) s))
         = snd (snd (last rs))"
proof -
  from assms obtain rs' t now ms where rs: "rs = rs' @ [(t, now, ms)]"
    by (metis rev_exhaust prod_cases3)
  show ?thesis unfolding rs by (simp add: run_snoc_fetch_ok)
qed

theorem full_fetch_authority_witness:
  "[(OnMount, 1000, [sample_message ''a'' ''Sent'' Missing (Timestamp 0),
                     sample_message ''b'' ''Scheduled'' Missing (Timestamp 0)]),
    (PollingTimer, 61000, [sample_message ''c'' ''Sent'' Missing (Timestamp 60000)])] \<noteq> []
   \<and> messages (fst (run False
         [FetchCompleted OnMount 1000
            (ok_result [sample_message ''a'' ''Sent'' Missing (Timestamp 0),
                        sample_message ''b'' ''Scheduled'' Missing (Timestamp 0)]),
          FetchCompleted PollingTimer 61000
            (ok_result [sample_message ''c'' ''Sent'' Missing (Timestamp 60000)])]
         initial_state))
       = [sample_message ''c'' ''Sent'' Missing (Timestamp 60000)]"
  using full_fetch_authority
    [of "[(OnMount, 1000, [sample_message ''a'' ''Sent'' Missing (Timestamp 0),
                           sample_message ''b'' ''Scheduled'' Missing (Timestamp 0)]),
          (PollingTimer, 61000, [sample_message ''c'' ''Sent'' Missing (Timestamp 60000)])]"
        False initial_state]
  by simp

text \<open>
  C8. The partial update of a \<open>statusUpdate\<close> event keeps the list's length and order;
  a message with the event's identity becomes itself with the status and the delivered
  timestamp of the event and every other field as before, a message with another identity
  stays as it is, and the Ledger and the progress flags are untouched. When no message has
  that identity the whole state is unchanged.
\<close>

theorem applyPartial_frame:
  "length (messages (fst (on_statusUpdate u s))) = length (messages s)
   \<and> (\<forall>i < length (messages s).
        messages (fst (on_statusUpdate u s)) ! i =
          (if msg_id (messages s ! i) = messageId u
           then (messages s ! i)\<lparr>status := upd_status u, deliveredAt := upd_deliveredAt u\<rparr>
           else messages s ! i))
   \<and> shownNotifications (fst (on_statusUpdate u s)) = shownNotifications s
   \<and> loading (fst (on_statusUpdate u s)) = loading s
   \<and> refreshing (fst (on_statusUpdate u s)) = refreshing s
   \<and> (messageId u \<notin> msg_id ` set (messages s) \<longrightarrow> fst (on_statusUpdate u s) = s)"
  by (simp add: fst_on_statusUpdate apply_update_def map_apply_update_id)

theorem applyPartial_frame_witness:
  "messages (fst (on_statusUpdate
       \<lparr>messageId = ''a'', upd_status = ''Sent'', upd_deliveredAt = Timestamp 5000\<rparr>
       (sample_state [sample_message ''a'' ''Scheduled'' Missing (Timestamp 0),
                      sample_message ''b'' ''Scheduled'' Missing (Timestamp 0)] {})))
     = [sample_message ''a'' ''Sent'' (Timestamp 5000) (Timestamp 0),
        sample_message ''b'' ''Scheduled'' Missing (Timestamp 0)]
   \<and> fst (on_statusUpdate
       \<lparr>messageId = ''z'', upd_status = ''Sent'', upd_deliveredAt = Timestamp 5000\<rparr>
       (sample_state [sample_message ''a'' ''Scheduled'' Missing (Timestamp 0),
                      sample_message ''b'' ''Scheduled'' Missing (Timestamp 0)] {}))
     = sample_state [sample_message ''a'' ''Scheduled'' Missing (Timestamp 0),
                     sample_message ''b'' ''Scheduled'' Missing (Timestamp 0)] {}"
  using applyPartial_frame
    [of "\<lparr>messageId = ''z'', upd_status = ''Sent'', upd_deliveredAt = Timestamp 5000\<rparr>"
        "sample_state [sample_message ''a'' ''Scheduled'' Missing (Timestamp 0),
                       sample_message ''b'' ''Scheduled'' Missing (Timestamp 0)] {}"]
  by (simp add: fst_on_statusUpdate apply_update_def sample_state_def sample_message_def)

section \<open>The Notification Decision Engine\<close>

text \<open>
  C3, as amended. The alert pass is guarded by \<open>!isWeb && isPoll\<close>. When a background
  fetch (timer or realtime-triggered) ends with a successful result, the number of alerts
  for an identity is one if the platform is not the web, the identity is not in the Ledger
  when the turn starts, and some message of the result with that identity has status
  \<open>'Sent'\<close> and an effective timestamp (\<open>deliveredAt\<close> if truthy, else \<open>updatedAt\<close>)
  less than two minutes before \<open>now\<close>; it is zero otherwise. For a message whose
  identity no other message of the result has, its notification is in the trace exactly
  under these conditions on the message itself. Nothing else is presented. At 119 seconds
  the alert fires, at 121 seconds it does not.
\<close>

theorem background_fetch_alert_iff:
  assumes "isPoll_of t"
  shows
   "alerts_for i (snd (step isWeb (FetchCompleted t now (ok_result ms)) s)) =
      (if \<not> isWeb \<and> i \<notin> shownNotifications s \<and>
          (\<exists>m\<in>set ms. msg_id m = i \<and> status m = ''Sent'' \<and>
             (\<exists>ts. sentAt m = Some ts \<and> now - ts < 2 * 60 * 1000))
       then 1 else 0)
    \<and> (\<forall>m\<in>set ms. (\<forall>m'\<in>set ms. msg_id m' = msg_id m \<longrightarrow> m' = m) \<longrightarrow>
          (ScheduleNotification (title m) (content_or_body m) (msg_id m)
             \<in> set (snd (step isWeb (FetchCompleted t now (ok_result ms)) s))
           \<longleftrightarrow> \<not> isWeb \<and> status m = ''Sent'' \<and> msg_id m \<notin> shownNotifications s \<and>
               (\<exists>ts. sentAt m = Some ts \<and> now - ts < 2 * 60 * 1000)))
    \<and> (\<forall>e\<in>set (snd (step isWeb (FetchCompleted t now (ok_result ms)) s)). is_present e \<longrightarrow>
          (\<exists>m\<in>set ms. e = ScheduleNotification (title m) (content_or_body m) (msg_id m)))
    \<and> (\<forall>m\<in>set ms. \<not> isWeb \<and> status m = ''Sent'' \<and> msg_id m \<notin> shownNotifications s
          \<and> sentAt m = Some (now - 119 * 1000) \<longrightarrow>
          alerts_for (msg_id m) (snd (step isWeb (FetchCompleted t now (ok_result ms)) s)) = 1)
    \<and> (\<forall>m\<in>set ms. (\<forall>m'\<in>set ms. msg_id m' = msg_id m \<longrightarrow> m' = m)
          \<and> sentAt m = Some (now - 121 * 1000) \<longrightarrow>
          alerts_for (msg_id m) (snd (step isWeb (FetchCompleted t now (ok_result ms)) s)) = 0)"
proof -
  let ?es = "snd (step isWeb (FetchCompleted t now (ok_result ms)) s)"
  have count: "alerts_for j ?es =
      (if \<not> isWeb \<and> j \<notin> shownNotifications s \<and>
          (\<exists>m\<in>set ms. msg_id m = j \<and> status m = ''Sent'' \<and>
             (\<exists>ts. sentAt m = Some ts \<and> now - ts < 2 * 60 * 1000))
       then 1 else 0)" for j
    using assms by (simp add: complete_ok_alerts date_gt_window)
  have member: "\<forall>m\<in>set ms. (\<forall>m'\<in>set ms. msg_id m' = msg_id m \<longrightarrow> m' = m) \<longrightarrow>
          (ScheduleNotification (title m) (content_or_body m) (msg_id m) \<in> set ?es
           \<longleftrightarrow> \<not> isWeb \<and> status m = ''Sent'' \<and> msg_id m \<notin> shownNotifications s \<and>
               (\<exists>ts. sentAt m = Some ts \<and> now - ts < 2 * 60 * 1000))"
    using assms by (simp add: complete_ok_member_iff date_gt_window)
  have only: "\<forall>e\<in>set ?es. is_present e \<longrightarrow>
          (\<exists>m\<in>set ms. e = ScheduleNotification (title m) (content_or_body m) (msg_id m))"
    using complete_ok_presents [of _ isWeb "isPoll_of t" now ms s] by auto
  have b119: "\<forall>m\<in>set ms. \<not> isWeb \<and> status m = ''Sent'' \<and> msg_id m \<notin> shownNotifications s
          \<and> sentAt m = Some (now - 119 * 1000) \<longrightarrow> alerts_for (msg_id m) ?es = 1"
    unfolding count by auto
  have b121: "\<forall>m\<in>set ms. (\<forall>m'\<in>set ms. msg_id m' = msg_id m \<longrightarrow> m' = m)
          \<and> sentAt m = Some (now - 121 * 1000) \<longrightarrow> alerts_for (msg_id m) ?es = 0"
    unfolding count by auto
  from count [of i] member only b119 b121 show ?thesis by blast
qed

theorem background_fetch_alert_iff_witness:
  "isPoll_of PollingTimer
   \<and> alerts_for ''a'' (snd (step False (FetchCompleted PollingTimer 1000000
        (ok_result [sample_message ''a'' ''Sent'' (Timestamp 881000) (Timestamp 0),
                    sample_message ''b'' ''Sent'' (Timestamp 879000) (Timestamp 0)]))
        initial_state)) = 1
   \<and> alerts_for ''b'' (snd (step False (FetchCompleted PollingTimer 1000000
        (ok_result [sample_message ''a'' ''Sent'' (Timestamp 881000) (Timestamp 0),
                    sample_message ''b'' ''Sent'' (Timestamp 879000) (Timestamp 0)]))
        initial_state)) = 0"
  using background_fetch_alert_iff [of PollingTimer "''a''" False 1000000
      "[sample_message ''a'' ''Sent'' (Timestamp 881000) (Timestamp 0),
        sample_message ''b'' ''Sent'' (Timestamp 879000) (Timestamp 0)]" initial_state]
    background_fetch_alert_iff [of PollingTimer "''b''" False 1000000
      "[sample_message ''a'' ''Sent'' (Timestamp 881000) (Timestamp 0),
        sample_message ''b'' ''Sent'' (Timestamp 879000) (Timestamp 0)]" initial_state]
  by (simp add: sample_message_def initial_state_def sentAt_def)

text \<open>
  The claim as written, without the platform, fails on the web: there a realtime-triggered
  fetch that delivers an unseen \<open>'Sent'\<close> message 119 seconds old presents nothing.
\<close>

theorem background_fetch_on_web_counterexample:
  "isPoll_of StatusUpdateFetch
   \<and> trigger_armed True StatusUpdateFetch
   \<and> status (sample_message ''b'' ''Sent'' (Timestamp 881000) (Timestamp 0)) = ''Sent''
   \<and> msg_id (sample_message ''b'' ''Sent'' (Timestamp 881000) (Timestamp 0))
        \<notin> shownNotifications initial_state
   \<and> sentAt (sample_message ''b'' ''Sent'' (Timestamp 881000) (Timestamp 0))
        = Some (1000000 - 119 * 1000)
   \<and> filter is_present (snd (step True (FetchCompleted StatusUpdateFetch 1000000
        (ok_result [sample_message ''b'' ''Sent'' (Timestamp 881000) (Timestamp 0)]))
        initial_state)) = []"
  by (simp add: sample_message_def initial_state_def sentAt_def complete_ok_effects)

text \<open>
  C1. A timer-tick fetch and a realtime-triggered fetch are in flight together and both
  deliver the message \<open>m\<close>, which has status \<open>'Sent'\<close>, is not in the Ledger and is less
  than two minutes old when either response arrives. Whichever response arrives first, and
  whatever turns happen between the two and after them, the fetches of the whole run
  present exactly one alert for the identity of \<open>m\<close>: the first turn presents it and
  puts the identity into the Ledger, where every later turn finds it. (A timer tick exists
  only where the interval timer was installed.) In every run from every state, each
  identity is alerted at most once.
\<close>

theorem overlapping_fetches_alert_once:
  assumes "trigger_armed isWeb PollingTimer"
    and "(t1 = PollingTimer \<and> t2 = StatusUpdateFetch) \<or> (t1 = StatusUpdateFetch \<and> t2 = PollingTimer)"
    and "m \<in> set ms1" and "m \<in> set ms2"
    and "status m = ''Sent''" and "msg_id m \<notin> shownNotifications s"
    and "sentAt m = Some ts" and "now1 - ts < 2 * 60 * 1000" and "now2 - ts < 2 * 60 * 1000"
  shows
    "alerts_for (msg_id m)
        (fetch_effects isWeb
           (FetchCompleted t1 now1 (ok_result ms1) # between
              @ FetchCompleted t2 now2 (ok_result ms2) # after) s) = 1
     \<and> alerts_for (msg_id m) (snd (step isWeb (FetchCompleted t1 now1 (ok_result ms1)) s)) = 1
     \<and> msg_id m \<in> shownNotifications (fst (step isWeb (FetchCompleted t1 now1 (ok_result ms1)) s))
     \<and> alerts_for (msg_id m)
          (snd (step isWeb (FetchCompleted t2 now2 (ok_result ms2))
             (fst (run isWeb (FetchCompleted t1 now1 (ok_result ms1) # between) s)))) = 0
     \<and> (\<forall>w. alerts_for i (fetch_effects w evs s') \<le> 1)"
proof -
  let ?e1 = "FetchCompleted t1 now1 (ok_result ms1)"
  let ?e2 = "FetchCompleted t2 now2 (ok_result ms2)"
  let ?s1 = "fst (step isWeb ?e1 s)"
  from assms(1) have web: "\<not> isWeb" by simp
  from assms(2) have poll: "isPoll_of t1" "isPoll_of t2" by auto
  have first: "alerts_for (msg_id m) (snd (step isWeb ?e1 s)) = 1"
    using web poll(1) assms(3,5,6,7,8) by (auto simp: complete_ok_alerts date_gt_window)
  then have seen: "msg_id m \<in> shownNotifications ?s1"
    using complete_alert_marks [of "msg_id m" isWeb "isPoll_of t1" now1 "ok_result ms1" s]
    by simp
  then have rest: "alerts_for (msg_id m) (fetch_effects isWeb (between @ ?e2 # after) ?s1) = 0"
    by (rule fetch_effects_seen)
  have total: "alerts_for (msg_id m) (fetch_effects isWeb (?e1 # between @ ?e2 # after) s) = 1"
    unfolding fetch_effects_Cons_fetch using first rest by simp
  have "shownNotifications ?s1 \<subseteq> shownNotifications (fst (run isWeb between ?s1))"
    by (rule run_shown_mono)
  with seen have "msg_id m \<in> shownNotifications (fst (run isWeb (?e1 # between) s))"
    unfolding fst_run_Cons by blast
  then have second: "alerts_for (msg_id m)
      (snd (step isWeb ?e2 (fst (run isWeb (?e1 # between) s)))) = 0"
    by (simp add: complete_seen_no_alert)
  have "\<forall>w. alerts_for i (fetch_effects w evs s') \<le> 1"
    by (intro allI fetch_effects_le1)
  with total first seen second show ?thesis
    by blast
qed


theorem overlapping_fetches_alert_once_witness:
  "trigger_armed False PollingTimer
   \<and> alerts_for ''b''
        (fetch_effects False
           [FetchCompleted PollingTimer 1000000
              (ok_result [sample_message ''a'' ''Sent'' Missing (Timestamp 0),
                          sample_message ''b'' ''Sent'' (Timestamp 970000) (Timestamp 0)]),
            FetchCompleted StatusUpdateFetch 1000500
              (ok_result [sample_message ''a'' ''Sent'' Missing (Timestamp 0),
                          sample_message ''b'' ''Sent'' (Timestamp 970000) (Timestamp 0)])]
           (sample_state [sample_message ''a'' ''Sent'' Missing (Timestamp 0)] {''a''})) = 1"
  using overlapping_fetches_alert_once
    [where isWeb = False and ?t1.0 = PollingTimer and ?t2.0 = StatusUpdateFetch
       and m = "sample_message ''b'' ''Sent'' (Timestamp 970000) (Timestamp 0)"
       and ?ms1.0 = "[sample_message ''a'' ''Sent'' Missing (Timestamp 0),
                  sample_message ''b'' ''Sent'' (Timestamp 970000) (Timestamp 0)]"
       and ?ms2.0 = "[sample_message ''a'' ''Sent'' Missing (Timestamp 0),
                  sample_message ''b'' ''Sent'' (Timestamp 970000) (Timestamp 0)]"
       and s = "sample_state [sample_message ''a'' ''Sent'' Missing (Timestamp 0)] {''a''}"
       and ts = 970000 and ?now1.0 = 1000000 and ?now2.0 = 1000500
       and between = "[]" and after = "[]" and i = "''b''" and evs = "[]"
       and s' = initial_state]
  by (simp add: sample_message_def sample_state_def sentAt_def)

text \<open>
  C2. Cold start. The first fetch of the process is the one the mount effect starts, from
  the initial state. When it returns a list, neither its start nor its completion presents
  anything, and the Ledger becomes exactly the set of identities of the messages with
  status \<open>'Sent'\<close>: each of them is a member, and when the identities of the list are
  distinct the Ledger has as many members as the list has such messages.
\<close>

theorem cold_start_seeds_ledger:
  "filter is_present (snd (fetchMessages_begin (isPoll_of OnMount) initial_state)) = []
   \<and> filter is_present
        (snd (step isWeb (FetchCompleted OnMount now (ok_result ms))
               (fst (fetchMessages_begin (isPoll_of OnMount) initial_state)))) = []
   \<and> shownNotifications
        (fst (step isWeb (FetchCompleted OnMount now (ok_result ms))
               (fst (fetchMessages_begin (isPoll_of OnMount) initial_state)))) = sent_ids ms
   \<and> (\<forall>m\<in>set ms. status m = ''Sent'' \<longrightarrow>
         msg_id m \<in> shownNotifications
           (fst (step isWeb (FetchCompleted OnMount now (ok_result ms))
                  (fst (fetchMessages_begin (isPoll_of OnMount) initial_state)))))
   \<and> (distinct (map msg_id ms) \<longrightarrow>
         card (shownNotifications
           (fst (step isWeb (FetchCompleted OnMount now (ok_result ms))
                  (fst (fetchMessages_begin (isPoll_of OnMount) initial_state)))))
         = length (filter (\<lambda>m. status m = ''Sent'') ms))"
proof -
  let ?s0 = "fst (fetchMessages_begin (isPoll_of OnMount) initial_state)"
  let ?r = "step isWeb (FetchCompleted OnMount now (ok_result ms)) ?s0"
  have s0: "shownNotifications ?s0 = {}"
    by (simp add: fetchMessages_begin_def initial_state_def)
  have a: "filter is_present (snd (fetchMessages_begin (isPoll_of OnMount) initial_state)) = []"
    by (simp add: fetchMessages_begin_def)
  have b: "filter is_present (snd ?r) = []"
    by (simp add: complete_no_present)
  have c: "shownNotifications (fst ?r) = sent_ids ms"
    using s0 by (simp add: complete_ok_shown)
  have d: "\<forall>m\<in>set ms. status m = ''Sent'' \<longrightarrow> msg_id m \<in> shownNotifications (fst ?r)"
    unfolding c by (auto simp: sent_ids_def)
  have e: "distinct (map msg_id ms) \<longrightarrow>
      card (shownNotifications (fst ?r)) = length (filter (\<lambda>m. status m = ''Sent'') ms)"
    unfolding c by (simp add: card_sent_ids)
  from a b c d e show ?thesis by blast
qed

theorem cold_start_seeds_ledger_witness:
  "filter is_present
     (snd (step False (FetchCompleted OnMount 1000000
        (ok_result [sample_message ''a'' ''Sent'' (Timestamp 999000) (Timestamp 0),
                    sample_message ''b'' ''Scheduled'' Missing (Timestamp 0),
                    sample_message ''c'' ''Sent'' Missing (Timestamp 5)]))
        (fst (fetchMessages_begin (isPoll_of OnMount) initial_state)))) = []
   \<and> shownNotifications
     (fst (step False (FetchCompleted OnMount 1000000
        (ok_result [sample_message ''a'' ''Sent'' (Timestamp 999000) (Timestamp 0),
                    sample_message ''b'' ''Scheduled'' Missing (Timestamp 0),
                    sample_message ''c'' ''Sent'' Missing (Timestamp 5)]))
        (fst (fetchMessages_begin (isPoll_of OnMount) initial_state)))) = {''a'', ''c''}"
  using cold_start_seeds_ledger [of False 1000000
      "[sample_message ''a'' ''Sent'' (Timestamp 999000) (Timestamp 0),
        sample_message ''b'' ''Scheduled'' Missing (Timestamp 0),
        sample_message ''c'' ''Sent'' Missing (Timestamp 5)]"]
  by (auto simp: sent_ids_def sample_message_def)

text \<open>
  C9. Every successful fetch that is not a background one (on mount, from the refresh
  control, after a test send), from any state, adds the identity of every \<open>'Sent'\<close>
  message of its result to the Ledger; whatever happens afterwards, no fetch alerts for
  such a message.
\<close>

theorem user_fetch_marks_sent_seen:
  assumes "\<not> isPoll_of t"
  shows "shownNotifications (fst (step isWeb (FetchCompleted t now (ok_result ms)) s))
           = shownNotifications s \<union> sent_ids ms
         \<and> (\<forall>m\<in>set ms. status m = ''Sent'' \<longrightarrow>
              alerts_for (msg_id m)
                (fetch_effects isWeb (FetchCompleted t now (ok_result ms) # evs) s) = 0)"
proof -
  let ?e = "FetchCompleted t now (ok_result ms)"
  have shown: "shownNotifications (fst (step isWeb ?e s)) = shownNotifications s \<union> sent_ids ms"
    using assms by (simp add: complete_ok_shown)
  have "alerts_for (msg_id m) (fetch_effects isWeb (?e # evs) s) = 0"
    if "m \<in> set ms" "status m = ''Sent''" for m
  proof -
    from that have "msg_id m \<in> shownNotifications (fst (step isWeb ?e s))"
      unfolding shown by (auto simp: sent_ids_def)
    then have "alerts_for (msg_id m) (fetch_effects isWeb evs (fst (step isWeb ?e s))) = 0"
      by (rule fetch_effects_seen)
    moreover have "alerts_for (msg_id m) (snd (step isWeb ?e s)) = 0"
      using assms by (simp add: complete_ok_alerts)
    ultimately show ?thesis by simp
  qed
  with shown show ?thesis by blast
qed

theorem user_fetch_marks_sent_seen_witness:
  "\<not> isPoll_of OnRefresh
   \<and> shownNotifications (fst (step False (FetchCompleted OnRefresh 1000000
        (ok_result [sample_message ''n'' ''Sent'' (Timestamp 1000000) (Timestamp 0)]))
        (sample_state [] {''a''}))) = {''a'', ''n''}
   \<and> alerts_for ''n''
        (fetch_effects False
           [FetchCompleted OnRefresh 1000000
              (ok_result [sample_message ''n'' ''Sent'' (Timestamp 1000000) (Timestamp 0)]),
            FetchCompleted PollingTimer 1001000
              (ok_result [sample_message ''n'' ''Sent'' (Timestamp 1000000) (Timestamp 0)])]
           (sample_state [] {''a''})) = 0"
  using user_fetch_marks_sent_seen [of OnRefresh False 1000000
      "[sample_message ''n'' ''Sent'' (Timestamp 1000000) (Timestamp 0)]"
      "sample_state [] {''a''}"
      "[FetchCompleted PollingTimer 1001000
          (ok_result [sample_message ''n'' ''Sent'' (Timestamp 1000000) (Timestamp 0)])]"]
  by (auto simp: sent_ids_def sample_message_def sample_state_def)

text \<open>
  C5. A manual refresh presents nothing: neither the turn of the refresh control nor the
  turn in which its fetch ends, in any state, on either platform, with any outcome and at
  any time.
\<close>

theorem manual_refresh_never_alerts:
  "filter is_present (snd (step isWeb RefreshPressed s)) = []
   \<and> filter is_present (snd (step isWeb (FetchCompleted OnRefresh now r) s')) = []
   \<and> filter is_present (snd (run isWeb [RefreshPressed, FetchCompleted OnRefresh now r] s)) = []"
proof -
  have a: "filter is_present (snd (step isWeb RefreshPressed s)) = []"
    by (simp add: onRefresh_def fetchMessages_begin_def)
  have b: "filter is_present (snd (step isWeb (FetchCompleted OnRefresh now r) s0)) = []" for s0
    by (simp add: complete_no_present)
  have "snd (run isWeb [RefreshPressed, FetchCompleted OnRefresh now r] s)
          = snd (step isWeb RefreshPressed s)
              @ snd (step isWeb (FetchCompleted OnRefresh now r) (fst (step isWeb RefreshPressed s)))"
    by (simp split: prod.splits)
  with a b show ?thesis by simp
qed

theorem manual_refresh_never_alerts_witness:
  "filter is_present (snd (run False
      [RefreshPressed,
       FetchCompleted OnRefresh 1000000
         (ok_result [sample_message ''n'' ''Sent'' (Timestamp 1000000) (Timestamp 1000000)])]
      initial_state)) = []"
  using manual_refresh_never_alerts [of False initial_state 1000000
      "ok_result [sample_message ''n'' ''Sent'' (Timestamp 1000000) (Timestamp 1000000)]"]
  by simp

section \<open>Failures, realtime events and the Test button\<close>

text \<open>
  C4, as amended. When a fetch fails (\<open>fetch\<close> rejects, the 10-second abort fires, the
  response is not \<open>ok\<close>, or the body is no JSON), the Store and the Ledger stay as they
  are and nothing is presented. A user-initiated fetch then shows the
  \<open>'Connection Error'\<close> dialog. A background fetch does nothing at all: it shows no
  dialog, writes nothing to the console, and leaves the whole state unchanged. The same
  holds of the Store, the Ledger and the alerts for every outcome that is not a successful
  result.
\<close>

theorem failed_fetch_changes_nothing:
  "messages (fst (step isWeb (FetchCompleted t now (Failed f)) s)) = messages s
   \<and> shownNotifications (fst (step isWeb (FetchCompleted t now (Failed f)) s))
        = shownNotifications s
   \<and> filter is_present (snd (step isWeb (FetchCompleted t now (Failed f)) s)) = []
   \<and> (\<not> isPoll_of t \<longrightarrow>
         AlertAlert ''Connection Error'' ''Could not connect to Bull Queue server.''
           \<in> set (snd (step isWeb (FetchCompleted t now (Failed f)) s)))
   \<and> (isPoll_of t \<longrightarrow> step isWeb (FetchCompleted t now (Failed f)) s = (s, []))
   \<and> ((\<forall>ms. r \<noteq> ok_result ms) \<longrightarrow>
         messages (fst (step isWeb (FetchCompleted t now r) s)) = messages s
         \<and> shownNotifications (fst (step isWeb (FetchCompleted t now r) s)) = shownNotifications s
         \<and> filter is_present (snd (step isWeb (FetchCompleted t now r) s)) = [])"
  by (simp add: complete_failed finally_block_def complete_not_ok_state complete_not_ok_effects)

theorem failed_fetch_changes_nothing_witness:
  "\<not> isPoll_of OnRefresh \<and> isPoll_of PollingTimer
   \<and> snd (step False (FetchCompleted OnRefresh 1000000 (Failed Timeout))
        (sample_state [sample_message ''a'' ''Sent'' Missing (Timestamp 0)] {''a''}))
      = [ConsoleError ''Error fetching messages:'',
         AlertAlert ''Connection Error'' ''Could not connect to Bull Queue server.'']
   \<and> step False (FetchCompleted PollingTimer 1000000 (Failed (HttpNotOk 500)))
        (sample_state [sample_message ''a'' ''Sent'' Missing (Timestamp 0)] {''a''})
      = (sample_state [sample_message ''a'' ''Sent'' Missing (Timestamp 0)] {''a''}, [])"
  using failed_fetch_changes_nothing [of False PollingTimer 1000000 "HttpNotOk 500"
      "sample_state [sample_message ''a'' ''Sent'' Missing (Timestamp 0)] {''a''}"
      "Failed (HttpNotOk 500)"]
  by (simp add: complete_failed)

text \<open>
  The claim as written has a failed background fetch logged. It is not: a timer-tick fetch
  that times out writes nothing to the console.
\<close>

theorem background_failure_logged_counterexample:
  "isPoll_of PollingTimer
   \<and> trigger_armed False PollingTimer
   \<and> filter is_log
        (snd (step False (FetchCompleted PollingTimer 1000000 (Failed Timeout)) initial_state))
       = []"
  by (simp add: complete_failed)

text \<open>
  C7. The handler of a \<open>statusUpdate\<close> event applies the partial update to the Store and
  then issues the request of a background fetch if and only if the status of the event is
  \<open>'Sent'\<close> and its identity is not in the Ledger; it issues at most one.
\<close>

theorem realtime_event_triggers_fetch_iff:
  "(HttpGet \<in> set (snd (step isWeb (StatusUpdate u) s)))
      = (upd_status u = ''Sent'' \<and> messageId u \<notin> shownNotifications s)
   \<and> length (filter (\<lambda>e. e = HttpGet) (snd (step isWeb (StatusUpdate u) s)))
      = (if upd_status u = ''Sent'' \<and> messageId u \<notin> shownNotifications s then 1 else 0)
   \<and> fst (step isWeb (StatusUpdate u) s) = s\<lparr>messages := map (apply_update u) (messages s)\<rparr>
   \<and> snd (step isWeb (StatusUpdate u) s) =
       ConsoleLog ''Real-time update received:'' #
       (if upd_status u = ''Sent'' \<and> messageId u \<notin> shownNotifications s
        then ConsoleLog ''Status changed to Sent, triggering immediate content fetch...''
               # snd (fetchMessages_begin (isPoll_of StatusUpdateFetch)
                       (s\<lparr>messages := map (apply_update u) (messages s)\<rparr>))
        else [])"
  by (simp add: on_statusUpdate_def fetchMessages_begin_def Let_def)

theorem realtime_event_triggers_fetch_iff_witness:
  "HttpGet \<in> set (snd (step False
      (StatusUpdate \<lparr>messageId = ''b'', upd_status = ''Sent'', upd_deliveredAt = Missing\<rparr>)
      (sample_state [sample_message ''a'' ''Sent'' Missing (Timestamp 0)] {''a''})))
   \<and> HttpGet \<notin> set (snd (step False
      (StatusUpdate \<lparr>messageId = ''a'', upd_status = ''Sent'', upd_deliveredAt = Missing\<rparr>)
      (sample_state [sample_message ''a'' ''Sent'' Missing (Timestamp 0)] {''a''})))
   \<and> HttpGet \<notin> set (snd (step False
      (StatusUpdate \<lparr>messageId = ''b'', upd_status = ''Failed'', upd_deliveredAt = Missing\<rparr>)
      (sample_state [sample_message ''a'' ''Sent'' Missing (Timestamp 0)] {''a''})))"
  using realtime_event_triggers_fetch_iff [of False
      "\<lparr>messageId = ''b'', upd_status = ''Sent'', upd_deliveredAt = Missing\<rparr>"
      "sample_state [sample_message ''a'' ''Sent'' Missing (Timestamp 0)] {''a''}"]
    realtime_event_triggers_fetch_iff [of False
      "\<lparr>messageId = ''a'', upd_status = ''Sent'', upd_deliveredAt = Missing\<rparr>"
      "sample_state [sample_message ''a'' ''Sent'' Missing (Timestamp 0)] {''a''}"]
    realtime_event_triggers_fetch_iff [of False
      "\<lparr>messageId = ''b'', upd_status = ''Failed'', upd_deliveredAt = Missing\<rparr>"
      "sample_state [sample_message ''a'' ''Sent'' Missing (Timestamp 0)] {''a''}"]
  by (simp add: sample_state_def fetchMessages_begin_def)

text \<open>
  C10. The Test button of a message calls \<open>sendNotificationFromMessage\<close> and nothing
  else: the state (Store, Ledger, flags) is unchanged and the message is presented once,
  whether or not its identity is in the Ledger. Pressed \<open>n\<close> times it presents \<open>n\<close>
  times and still leaves the state unchanged, and what later fetches present is the same
  as if the button had never been pressed.
\<close>

theorem preview_leaves_state_unchanged:
  "fst (step isWeb (TestPressed m) s) = s
   \<and> snd (step isWeb (TestPressed m) s) = sendNotificationFromMessage isWeb m
   \<and> length (filter is_present (snd (step isWeb (TestPressed m) s))) = 1
   \<and> fst (run isWeb (replicate n (TestPressed m)) s) = s
   \<and> length (filter is_present (snd (run isWeb (replicate n (TestPressed m)) s))) = n
   \<and> fetch_effects isWeb (replicate n (TestPressed m) @ evs) s = fetch_effects isWeb evs s"
proof -
  have "length (filter is_present (concat (replicate k (sendNotificationFromMessage isWeb m)))) = k"
    for k
    by (induction k) (simp_all add: present_send length_send)
  then show ?thesis
    by (simp add: run_replicate_test fetch_effects_replicate_test present_send length_send)
qed

theorem preview_leaves_state_unchanged_witness:
  "fst (run False
      (replicate 3 (TestPressed (sample_message ''b'' ''Sent'' (Timestamp 970000) (Timestamp 0))))
      (sample_state [sample_message ''b'' ''Sent'' (Timestamp 970000) (Timestamp 0)] {}))
     = sample_state [sample_message ''b'' ''Sent'' (Timestamp 970000) (Timestamp 0)] {}
   \<and> length (filter is_present (snd (run False
      (replicate 3 (TestPressed (sample_message ''b'' ''Sent'' (Timestamp 970000) (Timestamp 0))))
      (sample_state [sample_message ''b'' ''Sent'' (Timestamp 970000) (Timestamp 0)] {})))) = 3
   \<and> alerts_for ''b'' (fetch_effects False
      (replicate 3 (TestPressed (sample_message ''b'' ''Sent'' (Timestamp 970000) (Timestamp 0)))
         @ [FetchCompleted PollingTimer 1000000
              (ok_result [sample_message ''b'' ''Sent'' (Timestamp 970000) (Timestamp 0)])])
      (sample_state [sample_message ''b'' ''Sent'' (Timestamp 970000) (Timestamp 0)] {})) = 1"
  using preview_leaves_state_unchanged [of False
      "sample_message ''b'' ''Sent'' (Timestamp 970000) (Timestamp 0)"
      "sample_state [sample_message ''b'' ''Sent'' (Timestamp 970000) (Timestamp 0)] {}"
      3
      "[FetchCompleted PollingTimer 1000000
          (ok_result [sample_message ''b'' ''Sent'' (Timestamp 970000) (Timestamp 0)])]"]
  by (simp add: complete_ok_alerts sample_message_def sample_state_def sentAt_def
        twoMinutesAgo_def)

end
